theory Spec2Isabelle
  imports Main
begin

section \<open>Cross-schema reference validation (schemas/mod.js, cross-validator part)\<close>

text \<open>
  The validator reads loosely typed documents (\<^verbatim>\<open>Record<string, unknown>\<close>) through
  TypeScript casts. The embedding follows those casts: a field read \<^verbatim>\<open>as string\<close> is a
  \<^typ>\<open>string\<close>; a field read \<^verbatim>\<open>as T | undefined\<close>, through \<^verbatim>\<open>?.\<close> or with an
  \<^verbatim>\<open>|| []\<close> fallback is optional and may be absent (\<^verbatim>\<open>undefined\<close>), \<^verbatim>\<open>null\<close> or a value.
  So the identifier of a document, of a finding and of an artifact is a string, and the
  references, the lists and the provenance are optional. A test such as
  \<^verbatim>\<open>parentId && ...\<close> holds for a non-empty string only: absent, null and the empty
  string are falsy. Identifiers are compared as strings, as \<^verbatim>\<open>===\<close> and the keys of a
  \<^verbatim>\<open>Map\<close> are.
\<close>

subsection \<open>Optional JavaScript values\<close>

datatype 'a js = Undefined | Null | Val 'a

text \<open>\<^verbatim>\<open>x || []\<close> on an optional array: absent and null are falsy, every array is truthy.\<close>

fun or_empty :: "'a list js \<Rightarrow> 'a list" where
  "or_empty (Val xs) = xs"
| "or_empty Undefined = []"
| "or_empty Null = []"

text \<open>A field is absent when it is missing from the document or holds null.\<close>

fun absent :: "'a js \<Rightarrow> bool" where
  "absent (Val x) = False"
| "absent Undefined = True"
| "absent Null = True"

subsection \<open>Results\<close>

datatype error_type = missing_reference | invalid_reference | circular_reference

datatype warning_type = unverified_reference | stale_reference

record CrossReferenceWarning =
  type :: warning_type
  message :: string

record CrossReferenceError =
  type :: error_type
  source_schema :: string
  source_id :: string
  target_schema :: string
  target_id :: string
  field :: string
  message :: string

record CrossValidationResult =
  valid :: bool
  errors :: "CrossReferenceError list"
  warnings :: "CrossReferenceWarning list"

subsection \<open>Registry projections and the entity registry\<close>

record EnvelopeRef =
  artifact_ids :: "string list"
  parent_envelope_id :: "string js"

record PlanRef =
  envelope_id :: "string js"
  receipt_id :: "string js"

record ReceiptRef =
  plan_id :: "string js"
  envelope_id :: "string js"

record ArtifactRef =
  envelope_id :: string

record EntityRegistry =
  envelopes :: "string \<rightharpoonup> EnvelopeRef"
  plans :: "string \<rightharpoonup> PlanRef"
  receipts :: "string \<rightharpoonup> ReceiptRef"
  artifacts :: "string \<rightharpoonup> ArtifactRef"

text \<open>\<^verbatim>\<open>new EntityRegistry()\<close>: the four maps start empty.\<close>

definition new_EntityRegistry :: EntityRegistry where
  "new_EntityRegistry =
     \<lparr>EntityRegistry.envelopes = Map.empty, EntityRegistry.plans = Map.empty,
      EntityRegistry.receipts = Map.empty, EntityRegistry.artifacts = Map.empty\<rparr>"

text \<open>The loop of \<^verbatim>\<open>registerEnvelope\<close> over \<^verbatim>\<open>envelope.artifact_ids\<close>.\<close>

fun register_artifacts :: "string \<Rightarrow> string list \<Rightarrow> EntityRegistry \<Rightarrow> EntityRegistry" where
  "register_artifacts ident [] this = this"
| "register_artifacts ident (artifact # rest) this =
     register_artifacts ident rest
       (this\<lparr>EntityRegistry.artifacts :=
          (EntityRegistry.artifacts this)(artifact \<mapsto> \<lparr>ArtifactRef.envelope_id = ident\<rparr>)\<rparr>)"

definition registerEnvelope :: "EntityRegistry \<Rightarrow> string \<Rightarrow> EnvelopeRef \<Rightarrow> EntityRegistry" where
  "registerEnvelope this ident envelope =
     register_artifacts ident (artifact_ids envelope)
       (this\<lparr>EntityRegistry.envelopes := (EntityRegistry.envelopes this)(ident \<mapsto> envelope)\<rparr>)"

definition registerPlan :: "EntityRegistry \<Rightarrow> string \<Rightarrow> PlanRef \<Rightarrow> EntityRegistry" where
  "registerPlan this ident plan =
     this\<lparr>EntityRegistry.plans := (EntityRegistry.plans this)(ident \<mapsto> plan)\<rparr>"

definition registerReceipt :: "EntityRegistry \<Rightarrow> string \<Rightarrow> ReceiptRef \<Rightarrow> EntityRegistry" where
  "registerReceipt this ident receipt =
     this\<lparr>EntityRegistry.receipts := (EntityRegistry.receipts this)(ident \<mapsto> receipt)\<rparr>"

definition hasEnvelope :: "EntityRegistry \<Rightarrow> string \<Rightarrow> bool" where
  "hasEnvelope this ident = (EntityRegistry.envelopes this ident \<noteq> None)"

definition hasPlan :: "EntityRegistry \<Rightarrow> string \<Rightarrow> bool" where
  "hasPlan this ident = (EntityRegistry.plans this ident \<noteq> None)"

definition hasReceipt :: "EntityRegistry \<Rightarrow> string \<Rightarrow> bool" where
  "hasReceipt this ident = (EntityRegistry.receipts this ident \<noteq> None)"

definition hasArtifact :: "EntityRegistry \<Rightarrow> string \<Rightarrow> bool" where
  "hasArtifact this ident = (EntityRegistry.artifacts this ident \<noteq> None)"

definition getEnvelope :: "EntityRegistry \<Rightarrow> string \<Rightarrow> EnvelopeRef option" where
  "getEnvelope this ident = EntityRegistry.envelopes this ident"

definition clear :: "EntityRegistry \<Rightarrow> EntityRegistry" where
  "clear this =
     this\<lparr>EntityRegistry.envelopes := Map.empty, EntityRegistry.plans := Map.empty,
          EntityRegistry.receipts := Map.empty, EntityRegistry.artifacts := Map.empty\<rparr>"

subsection \<open>Documents\<close>

record artifact =
  artifact_id :: string

record finding =
  finding_id :: string
  evidence_refs :: "string list js"

record provenance =
  parent_envelope_id :: "string js"

record envelope =
  envelope_id :: string
  artifacts :: "artifact list js"
  findings :: "finding list js"
  provenance :: "provenance js"

record plan =
  plan_id :: string
  source_envelope_id :: "string js"
  receipt_id :: "string js"

record receipt =
  receipt_id :: string
  plan_id :: "string js"
  envelope_id :: "string js"
  source_envelope_id :: "string js"

record documents =
  envelopes :: "envelope list js"
  plans :: "plan list js"
  receipts :: "receipt list js"

text \<open>\<^verbatim>\<open>provenance?.parent_envelope_id\<close>: undefined when the provenance is absent or null.\<close>

fun parent_of :: "provenance js \<Rightarrow> string js" where
  "parent_of (Val p) = provenance.parent_envelope_id p"
| "parent_of Undefined = Undefined"
| "parent_of Null = Undefined"

subsection \<open>validateEnvelopeInternalRefs\<close>

definition artifact_error :: "string \<Rightarrow> string \<Rightarrow> string \<Rightarrow> CrossReferenceError" where
  "artifact_error envelopeId findingId ref =
     \<lparr>CrossReferenceError.type = missing_reference,
      source_schema = ''evidence-envelope'',
      source_id = envelopeId,
      target_schema = ''artifact'',
      target_id = ref,
      field = ''findings['' @ findingId @ ''].evidence_refs'',
      message = ''Finding \"'' @ findingId @ ''\" references non-existent artifact \"'' @ ref @ ''\"''\<rparr>"

text \<open>The inner loop over \<^verbatim>\<open>evidenceRefs\<close>, pushing onto \<^verbatim>\<open>errors\<close>.\<close>

fun evidence_loop ::
  "string \<Rightarrow> string \<Rightarrow> string set \<Rightarrow> string list \<Rightarrow> CrossReferenceError list
     \<Rightarrow> CrossReferenceError list" where
  "evidence_loop envelopeId findingId artifactIds [] errs = errs"
| "evidence_loop envelopeId findingId artifactIds (ref # refs) errs =
     evidence_loop envelopeId findingId artifactIds refs
       (if ref \<notin> artifactIds then errs @ [artifact_error envelopeId findingId ref] else errs)"

text \<open>The outer loop over \<^verbatim>\<open>findings\<close>.\<close>

fun findings_loop ::
  "string \<Rightarrow> string set \<Rightarrow> finding list \<Rightarrow> CrossReferenceError list
     \<Rightarrow> CrossReferenceError list" where
  "findings_loop envelopeId artifactIds [] errs = errs"
| "findings_loop envelopeId artifactIds (f # fs) errs =
     findings_loop envelopeId artifactIds fs
       (evidence_loop envelopeId (finding_id f) artifactIds (or_empty (evidence_refs f)) errs)"

definition parent_warning :: "string \<Rightarrow> CrossReferenceWarning" where
  "parent_warning parent =
     \<lparr>CrossReferenceWarning.type = unverified_reference,
      CrossReferenceWarning.message = ''Parent envelope \"'' @ parent @ ''\" cannot be verified without registry''\<rparr>"

text \<open>The set built from \<^verbatim>\<open>artifacts.map(...).filter(Boolean)\<close>: empty identifiers are dropped.\<close>

definition artifactIds_of :: "artifact list \<Rightarrow> string set" where
  "artifactIds_of arts = set (filter (\<lambda>s. s \<noteq> []) (map artifact_id arts))"

definition validateEnvelopeInternalRefs :: "envelope \<Rightarrow> CrossValidationResult" where
  "validateEnvelopeInternalRefs env =
     (let envelopeId = envelope.envelope_id env;
          arts = or_empty (envelope.artifacts env);
          fnds = or_empty (envelope.findings env);
          artifactIds = artifactIds_of arts;
          errs = findings_loop envelopeId artifactIds fnds [];
          warns = (case parent_of (envelope.provenance env) of
                     Val parent \<Rightarrow> if parent \<noteq> [] then [parent_warning parent] else []
                   | Undefined \<Rightarrow> []
                   | Null \<Rightarrow> [])
      in \<lparr>valid = (errs = []), errors = errs, warnings = warns\<rparr>)"

subsection \<open>validateCrossReferences\<close>

text \<open>Phase 1: the three registration loops.\<close>

fun register_envelopes :: "EntityRegistry \<Rightarrow> envelope list \<Rightarrow> EntityRegistry" where
  "register_envelopes registry [] = registry"
| "register_envelopes registry (env # rest) =
     register_envelopes
       (registerEnvelope registry (envelope.envelope_id env)
          \<lparr>artifact_ids = map artifact_id (or_empty (envelope.artifacts env)),
           EnvelopeRef.parent_envelope_id = parent_of (envelope.provenance env)\<rparr>)
       rest"

fun register_plans :: "EntityRegistry \<Rightarrow> plan list \<Rightarrow> EntityRegistry" where
  "register_plans registry [] = registry"
| "register_plans registry (p # rest) =
     register_plans
       (registerPlan registry (plan.plan_id p)
          \<lparr>PlanRef.envelope_id = plan.source_envelope_id p,
           PlanRef.receipt_id = plan.receipt_id p\<rparr>)
       rest"

fun register_receipts :: "EntityRegistry \<Rightarrow> receipt list \<Rightarrow> EntityRegistry" where
  "register_receipts registry [] = registry"
| "register_receipts registry (r # rest) =
     register_receipts
       (registerReceipt registry (receipt.receipt_id r)
          \<lparr>ReceiptRef.plan_id = receipt.plan_id r,
           ReceiptRef.envelope_id = receipt.envelope_id r\<rparr>)
       rest"

text \<open>Phase 2: the error records of the batch validator.\<close>

definition parent_missing_error :: "string \<Rightarrow> string \<Rightarrow> CrossReferenceError" where
  "parent_missing_error ident parentId =
     \<lparr>CrossReferenceError.type = missing_reference,
      source_schema = ''evidence-envelope'',
      source_id = ident,
      target_schema = ''evidence-envelope'',
      target_id = parentId,
      field = ''provenance.parent_envelope_id'',
      message = ''Envelope \"'' @ ident @ ''\" references non-existent parent envelope \"''
                  @ parentId @ ''\"''\<rparr>"

definition circular_error :: "string \<Rightarrow> string \<Rightarrow> CrossReferenceError" where
  "circular_error ident parentId =
     \<lparr>CrossReferenceError.type = circular_reference,
      source_schema = ''evidence-envelope'',
      source_id = ident,
      target_schema = ''evidence-envelope'',
      target_id = parentId,
      field = ''provenance.parent_envelope_id'',
      message = ''Envelope \"'' @ ident @ ''\" references itself as parent''\<rparr>"

definition plan_envelope_error :: "string \<Rightarrow> string \<Rightarrow> CrossReferenceError" where
  "plan_envelope_error ident envelopeId =
     \<lparr>CrossReferenceError.type = missing_reference,
      source_schema = ''procedure-plan'',
      source_id = ident,
      target_schema = ''evidence-envelope'',
      target_id = envelopeId,
      field = ''source_envelope_id'',
      message = ''Plan \"'' @ ident @ ''\" references non-existent envelope \"''
                  @ envelopeId @ ''\"''\<rparr>"

definition receipt_plan_error :: "string \<Rightarrow> string \<Rightarrow> CrossReferenceError" where
  "receipt_plan_error ident planId =
     \<lparr>CrossReferenceError.type = missing_reference,
      source_schema = ''receipt'',
      source_id = ident,
      target_schema = ''procedure-plan'',
      target_id = planId,
      field = ''plan_id'',
      message = ''Receipt \"'' @ ident @ ''\" references non-existent plan \"''
                  @ planId @ ''\"''\<rparr>"

definition receipt_envelope_error :: "string \<Rightarrow> string \<Rightarrow> CrossReferenceError" where
  "receipt_envelope_error ident envelopeId =
     \<lparr>CrossReferenceError.type = missing_reference,
      source_schema = ''receipt'',
      source_id = ident,
      target_schema = ''evidence-envelope'',
      target_id = envelopeId,
      field = ''source_envelope_id'',
      message = ''Receipt \"'' @ ident @ ''\" references non-existent envelope \"''
                  @ envelopeId @ ''\"''\<rparr>"

text \<open>
  The body of the loop over the envelopes: it pushes onto \<^verbatim>\<open>errors\<close> and
  \<^verbatim>\<open>warnings\<close>, here the pair it takes and returns. \<^verbatim>\<open>parentId && ...\<close> needs a
  non-empty string; \<^verbatim>\<open>parentId === id\<close> needs a string equal to the identifier.
\<close>

definition check_envelope ::
  "EntityRegistry \<Rightarrow> envelope
     \<Rightarrow> CrossReferenceError list \<times> CrossReferenceWarning list
     \<Rightarrow> CrossReferenceError list \<times> CrossReferenceWarning list" where
  "check_envelope registry env acc =
     (let ident = envelope.envelope_id env;
          parentId = parent_of (envelope.provenance env);
          errs1 = (case parentId of
                     Val p \<Rightarrow> if p \<noteq> [] \<and> \<not> hasEnvelope registry p
                              then fst acc @ [parent_missing_error ident p] else fst acc
                   | Undefined \<Rightarrow> fst acc
                   | Null \<Rightarrow> fst acc);
          errs2 = (case parentId of
                     Val p \<Rightarrow> if p = ident then errs1 @ [circular_error ident p] else errs1
                   | Undefined \<Rightarrow> errs1
                   | Null \<Rightarrow> errs1);
          internalResult = validateEnvelopeInternalRefs env
      in (errs2 @ errors internalResult, snd acc @ warnings internalResult))"

fun envelopes_loop ::
  "EntityRegistry \<Rightarrow> envelope list
     \<Rightarrow> CrossReferenceError list \<times> CrossReferenceWarning list
     \<Rightarrow> CrossReferenceError list \<times> CrossReferenceWarning list" where
  "envelopes_loop registry [] acc = acc"
| "envelopes_loop registry (env # rest) acc =
     envelopes_loop registry rest (check_envelope registry env acc)"

definition check_plan ::
  "EntityRegistry \<Rightarrow> plan \<Rightarrow> CrossReferenceError list \<Rightarrow> CrossReferenceError list" where
  "check_plan registry p errs =
     (let ident = plan.plan_id p
      in case plan.source_envelope_id p of
           Val envelopeId \<Rightarrow>
             if envelopeId \<noteq> [] \<and> \<not> hasEnvelope registry envelopeId
             then errs @ [plan_envelope_error ident envelopeId] else errs
         | Undefined \<Rightarrow> errs
         | Null \<Rightarrow> errs)"

fun plans_loop ::
  "EntityRegistry \<Rightarrow> plan list \<Rightarrow> CrossReferenceError list \<Rightarrow> CrossReferenceError list" where
  "plans_loop registry [] errs = errs"
| "plans_loop registry (p # rest) errs = plans_loop registry rest (check_plan registry p errs)"

text \<open>
  The body of the loop over the receipts. The envelope reference it checks is read from
  the receipt's \<^verbatim>\<open>source_envelope_id\<close>; the registration loop stores \<^verbatim>\<open>envelope_id\<close>.
\<close>

definition check_receipt ::
  "EntityRegistry \<Rightarrow> receipt \<Rightarrow> CrossReferenceError list \<Rightarrow> CrossReferenceError list" where
  "check_receipt registry r errs =
     (let ident = receipt.receipt_id r;
          errs1 = (case receipt.plan_id r of
                     Val planId \<Rightarrow>
                       if planId \<noteq> [] \<and> \<not> hasPlan registry planId
                       then errs @ [receipt_plan_error ident planId] else errs
                   | Undefined \<Rightarrow> errs
                   | Null \<Rightarrow> errs)
      in case receipt.source_envelope_id r of
           Val envelopeId \<Rightarrow>
             if envelopeId \<noteq> [] \<and> \<not> hasEnvelope registry envelopeId
             then errs1 @ [receipt_envelope_error ident envelopeId] else errs1
         | Undefined \<Rightarrow> errs1
         | Null \<Rightarrow> errs1)"

fun receipts_loop ::
  "EntityRegistry \<Rightarrow> receipt list \<Rightarrow> CrossReferenceError list \<Rightarrow> CrossReferenceError list" where
  "receipts_loop registry [] errs = errs"
| "receipts_loop registry (r # rest) errs =
     receipts_loop registry rest (check_receipt registry r errs)"

text \<open>
  The batch validator mutates the registry it is given: the model returns the result
  together with the registry after the call.
\<close>

definition validateCrossReferences ::
  "EntityRegistry \<Rightarrow> documents \<Rightarrow> CrossValidationResult \<times> EntityRegistry" where
  "validateCrossReferences registry docs =
     (let envs = or_empty (documents.envelopes docs);
          ps = or_empty (documents.plans docs);
          rs = or_empty (documents.receipts docs);
          registry1 = register_envelopes registry envs;
          registry2 = register_plans registry1 ps;
          registry3 = register_receipts registry2 rs;
          ew = envelopes_loop registry3 envs ([], []);
          errs2 = plans_loop registry3 ps (fst ew);
          errs3 = receipts_loop registry3 rs errs2
      in (\<lparr>valid = (errs3 = []), errors = errs3, warnings = snd ew\<rparr>, registry3))"

subsection \<open>validateDocumentRefs\<close>

text \<open>The schema type tag together with the document it announces.\<close>

datatype document = Envelope envelope | Plan plan | Receipt receipt

definition not_in_registry_warning :: "string \<Rightarrow> CrossReferenceWarning" where
  "not_in_registry_warning parentId =
     \<lparr>CrossReferenceWarning.type = unverified_reference,
      CrossReferenceWarning.message = ''Parent envelope \"'' @ parentId @ ''\" not in registry''\<rparr>"

definition document_plan_error :: "string \<Rightarrow> string \<Rightarrow> CrossReferenceError" where
  "document_plan_error ident envelopeId =
     \<lparr>CrossReferenceError.type = missing_reference,
      source_schema = ''procedure-plan'',
      source_id = ident,
      target_schema = ''evidence-envelope'',
      target_id = envelopeId,
      field = ''source_envelope_id'',
      message = ''Plan references non-existent envelope \"'' @ envelopeId @ ''\"''\<rparr>"

definition document_receipt_error :: "string \<Rightarrow> string \<Rightarrow> CrossReferenceError" where
  "document_receipt_error ident planId =
     \<lparr>CrossReferenceError.type = missing_reference,
      source_schema = ''receipt'',
      source_id = ident,
      target_schema = ''procedure-plan'',
      target_id = planId,
      field = ''plan_id'',
      message = ''Receipt references non-existent plan \"'' @ planId @ ''\"''\<rparr>"

fun validateDocumentRefs :: "EntityRegistry \<Rightarrow> document \<Rightarrow> CrossValidationResult" where
  "validateDocumentRefs registry (Envelope doc) =
     (let result = validateEnvelopeInternalRefs doc;
          errs = errors result;
          warns = warnings result;
          warns' = (case parent_of (envelope.provenance doc) of
                      Val parentId \<Rightarrow>
                        if parentId \<noteq> [] \<and> \<not> hasEnvelope registry parentId
                        then warns @ [not_in_registry_warning parentId] else warns
                    | Undefined \<Rightarrow> warns
                    | Null \<Rightarrow> warns)
      in \<lparr>valid = (errs = []), errors = errs, warnings = warns'\<rparr>)"
| "validateDocumentRefs registry (Plan doc) =
     (let ident = plan.plan_id doc;
          errs = (case plan.source_envelope_id doc of
                    Val envelopeId \<Rightarrow>
                      if envelopeId \<noteq> [] \<and> \<not> hasEnvelope registry envelopeId
                      then [document_plan_error ident envelopeId] else []
                  | Undefined \<Rightarrow> []
                  | Null \<Rightarrow> [])
      in \<lparr>valid = (errs = []), errors = errs, warnings = []\<rparr>)"
| "validateDocumentRefs registry (Receipt doc) =
     (let ident = receipt.receipt_id doc;
          errs = (case receipt.plan_id doc of
                    Val planId \<Rightarrow>
                      if planId \<noteq> [] \<and> \<not> hasPlan registry planId
                      then [document_receipt_error ident planId] else []
                  | Undefined \<Rightarrow> []
                  | Null \<Rightarrow> [])
      in \<lparr>valid = (errs = []), errors = errs, warnings = []\<rparr>)"

subsection \<open>What one document contributes to the batch result\<close>

text \<open>The errors one iteration of each validation loop pushes, started from empty lists.\<close>

definition envelope_errors :: "EntityRegistry \<Rightarrow> envelope \<Rightarrow> CrossReferenceError list" where
  "envelope_errors registry env = fst (check_envelope registry env ([], []))"

definition plan_errors :: "EntityRegistry \<Rightarrow> plan \<Rightarrow> CrossReferenceError list" where
  "plan_errors registry p = check_plan registry p []"

definition receipt_errors :: "EntityRegistry \<Rightarrow> receipt \<Rightarrow> CrossReferenceError list" where
  "receipt_errors registry r = check_receipt registry r []"

subsection \<open>Example inputs\<close>

definition example_registry :: EntityRegistry where
  "example_registry =
     registerReceipt
       (registerPlan
          (registerEnvelope new_EntityRegistry ''E1''
             \<lparr>artifact_ids = [''A1''], EnvelopeRef.parent_envelope_id = Undefined\<rparr>)
          ''P1'' \<lparr>PlanRef.envelope_id = Val ''E1'', PlanRef.receipt_id = Undefined\<rparr>)
       ''R1'' \<lparr>ReceiptRef.plan_id = Val ''P1'', ReceiptRef.envelope_id = Val ''E1''\<rparr>"

definition example_plan :: plan where
  "example_plan = \<lparr>plan.plan_id = ''P1'', plan.source_envelope_id = Undefined,
                    plan.receipt_id = Undefined\<rparr>"

definition example_receipt :: receipt where
  "example_receipt = \<lparr>receipt.receipt_id = ''R1'', receipt.plan_id = Val ''P1'',
                       receipt.envelope_id = Val ''E404'',
                       receipt.source_envelope_id = Val ''E404''\<rparr>"

definition example_batch :: documents where
  "example_batch = \<lparr>documents.envelopes = Undefined, documents.plans = Val [example_plan],
                     documents.receipts = Val [example_receipt]\<rparr>"

definition example_self_parent :: envelope where
  "example_self_parent =
     \<lparr>envelope.envelope_id = ''E1'', envelope.artifacts = Val [],
      envelope.findings = Undefined,
      envelope.provenance = Val \<lparr>provenance.parent_envelope_id = Val ''E1''\<rparr>\<rparr>"

definition example_self_parent_batch :: documents where
  "example_self_parent_batch =
     \<lparr>documents.envelopes = Val [example_self_parent], documents.plans = Undefined,
      documents.receipts = Undefined\<rparr>"

definition example_root :: envelope where
  "example_root =
     \<lparr>envelope.envelope_id = ''E1'', envelope.artifacts = Val [\<lparr>artifact_id = ''A1''\<rparr>],
      envelope.findings = Val [\<lparr>finding_id = ''F1'', evidence_refs = Val [''A1'']\<rparr>],
      envelope.provenance = Undefined\<rparr>"

definition example_child :: envelope where
  "example_child =
     \<lparr>envelope.envelope_id = ''E2'', envelope.artifacts = Undefined,
      envelope.findings = Null,
      envelope.provenance = Val \<lparr>provenance.parent_envelope_id = Val ''E1''\<rparr>\<rparr>"

definition example_family :: documents where
  "example_family =
     \<lparr>documents.envelopes = Val [example_child, example_root], documents.plans = Undefined,
      documents.receipts = Undefined\<rparr>"

definition example_orphan_receipt :: receipt where
  "example_orphan_receipt =
     \<lparr>receipt.receipt_id = ''R2'', receipt.plan_id = Val ''P9'',
      receipt.envelope_id = Val ''E404'', receipt.source_envelope_id = Val ''E404''\<rparr>"

definition example_bare_envelope :: envelope where
  "example_bare_envelope =
     \<lparr>envelope.envelope_id = ''E0'', envelope.artifacts = Undefined,
      envelope.findings = Null, envelope.provenance = Undefined\<rparr>"

definition example_bare_receipt :: receipt where
  "example_bare_receipt =
     \<lparr>receipt.receipt_id = ''R0'', receipt.plan_id = Null,
      receipt.envelope_id = Undefined, receipt.source_envelope_id = Null\<rparr>"

definition example_absent_batch :: documents where
  "example_absent_batch =
     \<lparr>documents.envelopes = Val [example_bare_envelope], documents.plans = Val [example_plan],
      documents.receipts = Val [example_bare_receipt]\<rparr>"

definition example_scenario_receipt :: receipt where
  "example_scenario_receipt =
     \<lparr>receipt.receipt_id = ''R1'', receipt.plan_id = Val ''P1'',
      receipt.envelope_id = Val ''E404'', receipt.source_envelope_id = Undefined\<rparr>"

definition example_scenario_batch :: documents where
  "example_scenario_batch =
     \<lparr>documents.envelopes = Undefined, documents.plans = Val [example_plan],
      documents.receipts = Val [example_scenario_receipt]\<rparr>"

section \<open>Auxiliary facts\<close>

subsection \<open>The loops as list comprehensions\<close>

lemma evidence_loop_append:
  "evidence_loop e f A refs errs =
     errs @ map (artifact_error e f) (filter (\<lambda>r. r \<notin> A) refs)"
  by (induction refs arbitrary: errs) auto

lemma findings_loop_append:
  "findings_loop e A fs errs =
     errs @ concat (map (\<lambda>f. map (artifact_error e (finding_id f))
                               (filter (\<lambda>r. r \<notin> A) (or_empty (evidence_refs f)))) fs)"
  by (induction fs arbitrary: errs) (simp_all add: evidence_loop_append)

lemma errors_internal:
  "errors (validateEnvelopeInternalRefs env) =
     concat (map (\<lambda>f. map (artifact_error (envelope.envelope_id env) (finding_id f))
                    (filter (\<lambda>r. r \<notin> artifactIds_of (or_empty (envelope.artifacts env)))
                       (or_empty (evidence_refs f))))
               (or_empty (envelope.findings env)))"
  by (simp add: validateEnvelopeInternalRefs_def Let_def findings_loop_append)

lemma warnings_internal:
  "warnings (validateEnvelopeInternalRefs env) =
     (case parent_of (envelope.provenance env) of
        Val parent \<Rightarrow> if parent \<noteq> [] then [parent_warning parent] else []
      | Undefined \<Rightarrow> [] | Null \<Rightarrow> [])"
  by (simp add: validateEnvelopeInternalRefs_def Let_def)

lemma valid_internal:
  "valid (validateEnvelopeInternalRefs env) = (errors (validateEnvelopeInternalRefs env) = [])"
  by (simp add: validateEnvelopeInternalRefs_def Let_def)

lemma internal_error_origin:
  assumes "e \<in> set (errors (validateEnvelopeInternalRefs env))"
  shows "\<exists>F \<in> set (or_empty (envelope.findings env)).
           \<exists>r \<in> set (or_empty (evidence_refs F)).
             e = artifact_error (envelope.envelope_id env) (finding_id F) r
             \<and> r \<notin> artifactIds_of (or_empty (envelope.artifacts env))"
  using assms by (auto simp: errors_internal)

lemma internal_error_field:
  assumes "e \<in> set (errors (validateEnvelopeInternalRefs env))"
  shows "field e \<noteq> ''provenance.parent_envelope_id'' \<and> target_schema e = ''artifact''"
  using internal_error_origin [OF assms] by (auto simp: artifact_error_def)

lemma check_envelope_append:
  "check_envelope registry env acc =
     (fst acc @ envelope_errors registry env,
      snd acc @ warnings (validateEnvelopeInternalRefs env))"
  by (simp add: check_envelope_def envelope_errors_def Let_def split: js.splits)

lemma envelopes_loop_append:
  "envelopes_loop registry es acc =
     (fst acc @ concat (map (envelope_errors registry) es),
      snd acc @ concat (map (\<lambda>env. warnings (validateEnvelopeInternalRefs env)) es))"
proof (induction es arbitrary: acc)
  case Nil
  show ?case by simp
next
  case (Cons env es)
  show ?case by (simp add: Cons.IH check_envelope_append)
qed

lemma check_plan_append: "check_plan registry p errs = errs @ plan_errors registry p"
  by (simp add: check_plan_def plan_errors_def split: js.splits)

lemma plans_loop_append:
  "plans_loop registry ps errs = errs @ concat (map (plan_errors registry) ps)"
proof (induction ps arbitrary: errs)
  case Nil
  show ?case by simp
next
  case (Cons p ps)
  show ?case by (simp add: Cons.IH check_plan_append)
qed

lemma check_receipt_append: "check_receipt registry r errs = errs @ receipt_errors registry r"
  by (simp add: check_receipt_def receipt_errors_def Let_def split: js.splits)

lemma receipts_loop_append:
  "receipts_loop registry rs errs = errs @ concat (map (receipt_errors registry) rs)"
proof (induction rs arbitrary: errs)
  case Nil
  show ?case by simp
next
  case (Cons r rs)
  show ?case by (simp add: Cons.IH check_receipt_append)
qed

lemma batch_errors:
  "errors (fst (validateCrossReferences reg docs)) =
     concat (map (envelope_errors (snd (validateCrossReferences reg docs)))
               (or_empty (documents.envelopes docs)))
     @ concat (map (plan_errors (snd (validateCrossReferences reg docs)))
                 (or_empty (documents.plans docs)))
     @ concat (map (receipt_errors (snd (validateCrossReferences reg docs)))
                 (or_empty (documents.receipts docs)))"
  by (simp add: validateCrossReferences_def Let_def envelopes_loop_append plans_loop_append
        receipts_loop_append)

lemma batch_warnings:
  "warnings (fst (validateCrossReferences reg docs)) =
     concat (map (\<lambda>env. warnings (validateEnvelopeInternalRefs env))
               (or_empty (documents.envelopes docs)))"
  by (simp add: validateCrossReferences_def Let_def envelopes_loop_append)

lemma batch_valid:
  "valid (fst (validateCrossReferences reg docs)) =
     (errors (fst (validateCrossReferences reg docs)) = [])"
  by (simp add: validateCrossReferences_def Let_def)

lemma register_artifacts_other:
  "EntityRegistry.envelopes (register_artifacts ident xs this) = EntityRegistry.envelopes this"
  "EntityRegistry.plans (register_artifacts ident xs this) = EntityRegistry.plans this"
  "EntityRegistry.receipts (register_artifacts ident xs this) = EntityRegistry.receipts this"
  by (induction xs arbitrary: this) simp_all

lemma hasEnvelope_registerEnvelope:
  "hasEnvelope (registerEnvelope this ident env) j \<longleftrightarrow> j = ident \<or> hasEnvelope this j"
  by (simp add: hasEnvelope_def registerEnvelope_def register_artifacts_other)

lemma hasPlan_registerEnvelope:
  "hasPlan (registerEnvelope this ident env) j = hasPlan this j"
  by (simp add: hasPlan_def registerEnvelope_def register_artifacts_other)

lemma hasEnvelope_register_envelopes:
  "hasEnvelope (register_envelopes reg es) j \<longleftrightarrow>
     j \<in> envelope.envelope_id ` set es \<or> hasEnvelope reg j"
  by (induction es arbitrary: reg) (auto simp: hasEnvelope_registerEnvelope)

lemma hasPlan_register_envelopes:
  "hasPlan (register_envelopes reg es) j = hasPlan reg j"
  by (induction es arbitrary: reg) (simp_all add: hasPlan_registerEnvelope)

lemma hasEnvelope_register_plans:
  "hasEnvelope (register_plans reg ps) j = hasEnvelope reg j"
  by (induction ps arbitrary: reg) (simp_all add: hasEnvelope_def registerPlan_def)

lemma hasPlan_register_plans:
  "hasPlan (register_plans reg ps) j \<longleftrightarrow> j \<in> plan.plan_id ` set ps \<or> hasPlan reg j"
  by (induction ps arbitrary: reg) (auto simp: hasPlan_def registerPlan_def)

lemma hasEnvelope_register_receipts:
  "hasEnvelope (register_receipts reg rs) j = hasEnvelope reg j"
  by (induction rs arbitrary: reg) (simp_all add: hasEnvelope_def registerReceipt_def)

lemma hasPlan_register_receipts:
  "hasPlan (register_receipts reg rs) j = hasPlan reg j"
  by (induction rs arbitrary: reg) (simp_all add: hasPlan_def registerReceipt_def)

lemma hasEnvelope_batch:
  "hasEnvelope (snd (validateCrossReferences reg docs)) j \<longleftrightarrow>
     j \<in> envelope.envelope_id ` set (or_empty (documents.envelopes docs)) \<or> hasEnvelope reg j"
  by (simp add: validateCrossReferences_def Let_def hasEnvelope_register_receipts
        hasEnvelope_register_plans hasEnvelope_register_envelopes)

lemma hasPlan_batch:
  "hasPlan (snd (validateCrossReferences reg docs)) j \<longleftrightarrow>
     j \<in> plan.plan_id ` set (or_empty (documents.plans docs)) \<or> hasPlan reg j"
  by (simp add: validateCrossReferences_def Let_def hasPlan_register_receipts
        hasPlan_register_plans hasPlan_register_envelopes)

lemma register_artifacts_artifacts:
  "EntityRegistry.artifacts (register_artifacts ident xs this) a =
     (if a \<in> set xs then Some \<lparr>ArtifactRef.envelope_id = ident\<rparr>
      else EntityRegistry.artifacts this a)"
  by (induction xs arbitrary: this) auto

lemma hasArtifact_registerEnvelope:
  "hasArtifact (registerEnvelope this ident env) a \<longleftrightarrow>
     a \<in> set (artifact_ids env) \<or> hasArtifact this a"
  by (simp add: hasArtifact_def registerEnvelope_def register_artifacts_artifacts)

lemma getEnvelope_registerEnvelope:
  "getEnvelope (registerEnvelope this ident env) j =
     (if j = ident then Some env else getEnvelope this j)"
  by (simp add: getEnvelope_def registerEnvelope_def register_artifacts_other)

lemma clear_new: "clear this = new_EntityRegistry"
  by (simp add: clear_def new_EntityRegistry_def)

lemma hasEnvelope_self:
  assumes "E \<in> set (or_empty (documents.envelopes docs))"
  shows "hasEnvelope (snd (validateCrossReferences reg docs)) (envelope.envelope_id E)"
  using assms by (simp add: hasEnvelope_batch)

subsection \<open>Where an error comes from\<close>

lemma envelope_error_origin:
  assumes "e \<in> set (envelope_errors reg E)"
  shows "(\<exists>p. parent_of (envelope.provenance E) = Val p \<and> p \<noteq> [] \<and> \<not> hasEnvelope reg p
              \<and> e = parent_missing_error (envelope.envelope_id E) p)
         \<or> (parent_of (envelope.provenance E) = Val (envelope.envelope_id E)
              \<and> e = circular_error (envelope.envelope_id E) (envelope.envelope_id E))
         \<or> e \<in> set (errors (validateEnvelopeInternalRefs E))"
  using assms
  by (cases "parent_of (envelope.provenance E)")
     (auto simp: envelope_errors_def check_envelope_def Let_def split: if_splits)

lemma plan_error_origin:
  assumes "e \<in> set (plan_errors reg P)"
  shows "\<exists>t. plan.source_envelope_id P = Val t \<and> t \<noteq> [] \<and> \<not> hasEnvelope reg t
             \<and> e = plan_envelope_error (plan.plan_id P) t"
  using assms
  by (cases "plan.source_envelope_id P")
     (auto simp: plan_errors_def check_plan_def Let_def split: if_splits)

lemma receipt_error_origin:
  assumes "e \<in> set (receipt_errors reg R)"
  shows "(\<exists>t. receipt.plan_id R = Val t \<and> t \<noteq> [] \<and> \<not> hasPlan reg t
              \<and> e = receipt_plan_error (receipt.receipt_id R) t)
         \<or> (\<exists>t. receipt.source_envelope_id R = Val t \<and> t \<noteq> [] \<and> \<not> hasEnvelope reg t
              \<and> e = receipt_envelope_error (receipt.receipt_id R) t)"
  using assms
  by (cases "receipt.plan_id R"; cases "receipt.source_envelope_id R")
     (auto simp: receipt_errors_def check_receipt_def Let_def split: if_splits)

lemma batch_error_cases:
  assumes "e \<in> set (errors (fst (validateCrossReferences reg docs)))"
  shows "(\<exists>E \<in> set (or_empty (documents.envelopes docs)).
             e \<in> set (envelope_errors (snd (validateCrossReferences reg docs)) E))
         \<or> (\<exists>P \<in> set (or_empty (documents.plans docs)).
             e \<in> set (plan_errors (snd (validateCrossReferences reg docs)) P))
         \<or> (\<exists>R \<in> set (or_empty (documents.receipts docs)).
             e \<in> set (receipt_errors (snd (validateCrossReferences reg docs)) R))"
  using assms by (auto simp: batch_errors)

lemma batch_absent_lists:
  assumes "absent (documents.envelopes docs)" and "absent (documents.plans docs)"
    and "absent (documents.receipts docs)"
  shows "fst (validateCrossReferences reg docs) = \<lparr>valid = True, errors = [], warnings = []\<rparr>"
proof -
  have "or_empty (documents.envelopes docs) = []" "or_empty (documents.plans docs) = []"
    "or_empty (documents.receipts docs) = []"
    using assms by (cases "documents.envelopes docs"; cases "documents.plans docs";
      cases "documents.receipts docs"; simp)+
  then show ?thesis
    by (simp add: validateCrossReferences_def)
qed

lemma internal_absent_artifacts:
  assumes "absent (envelope.artifacts env)"
  shows "validateEnvelopeInternalRefs env =
           validateEnvelopeInternalRefs (env\<lparr>envelope.artifacts := Val []\<rparr>)"
  using assms by (cases "envelope.artifacts env") (simp_all add: validateEnvelopeInternalRefs_def)

lemma internal_absent_refs:
  assumes "\<forall>F \<in> set (or_empty (envelope.findings env)). absent (evidence_refs F)"
  shows "errors (validateEnvelopeInternalRefs env) = []"
proof -
  have "or_empty (evidence_refs F) = []" if "F \<in> set (or_empty (envelope.findings env))" for F
    using assms that by (cases "evidence_refs F") auto
  then show ?thesis
    by (simp add: errors_internal)
qed

lemma internal_absent_clean:
  assumes "absent (envelope.findings env)" and "absent (parent_of (envelope.provenance env))"
  shows "validateEnvelopeInternalRefs env = \<lparr>valid = True, errors = [], warnings = []\<rparr>"
  using assms
  by (cases "envelope.findings env"; cases "parent_of (envelope.provenance env)")
     (simp_all add: validateEnvelopeInternalRefs_def)

lemma incremental_envelope_absent_parent:
  assumes "absent (parent_of (envelope.provenance env))"
  shows "validateDocumentRefs reg (Envelope env) = validateEnvelopeInternalRefs env"
  using assms
  by (cases "parent_of (envelope.provenance env)")
     (simp_all add: Let_def validateEnvelopeInternalRefs_def)

lemma incremental_plan_absent:
  assumes "absent (plan.source_envelope_id pl)"
  shows "validateDocumentRefs reg (Plan pl) = \<lparr>valid = True, errors = [], warnings = []\<rparr>"
  using assms by (cases "plan.source_envelope_id pl") simp_all

lemma incremental_receipt_absent:
  assumes "absent (receipt.plan_id rc)"
  shows "validateDocumentRefs reg (Receipt rc) = \<lparr>valid = True, errors = [], warnings = []\<rparr>"
  using assms by (cases "receipt.plan_id rc") simp_all

lemma internal_error_present:
  "(\<forall>e \<in> set (errors (validateEnvelopeInternalRefs env)).
       \<exists>F \<in> set (or_empty (envelope.findings env)).
         CrossReferenceError.type e = missing_reference
         \<and> target_id e \<in> set (or_empty (evidence_refs F))
         \<and> target_id e \<notin> artifactIds_of (or_empty (envelope.artifacts env)))"
  using internal_error_origin [of _ env] by (fastforce simp: artifact_error_def)

lemma incremental_plan_origin:
  "(\<forall>e \<in> set (errors (validateDocumentRefs reg (Plan pl))).
       plan.source_envelope_id pl = Val (target_id e) \<and> \<not> hasEnvelope reg (target_id e))"
  by (cases "plan.source_envelope_id pl") (simp_all add: Let_def document_plan_error_def)

lemma incremental_receipt_origin:
  "(\<forall>e \<in> set (errors (validateDocumentRefs reg (Receipt rc))).
       receipt.plan_id rc = Val (target_id e) \<and> \<not> hasPlan reg (target_id e))"
  by (cases "receipt.plan_id rc") (simp_all add: Let_def document_receipt_error_def)

lemma batch_error_present:
  assumes "e \<in> set (errors (fst (validateCrossReferences reg docs)))"
  shows "(\<exists>E \<in> set (or_empty (documents.envelopes docs)).
          source_id e = envelope.envelope_id E
          \<and> field e = ''provenance.parent_envelope_id''
          \<and> parent_of (envelope.provenance E) = Val (target_id e)
          \<and> (CrossReferenceError.type e = missing_reference
                \<and> \<not> hasEnvelope (snd (validateCrossReferences reg docs)) (target_id e)
              \<or> CrossReferenceError.type e = circular_reference
                \<and> target_id e = envelope.envelope_id E))
       \<or> (\<exists>E \<in> set (or_empty (documents.envelopes docs)).
            \<exists>F \<in> set (or_empty (envelope.findings E)).
              source_id e = envelope.envelope_id E
              \<and> CrossReferenceError.type e = missing_reference
              \<and> target_schema e = ''artifact''
              \<and> target_id e \<in> set (or_empty (evidence_refs F))
              \<and> target_id e \<notin> artifactIds_of (or_empty (envelope.artifacts E)))
       \<or> (\<exists>P \<in> set (or_empty (documents.plans docs)).
            source_id e = plan.plan_id P
            \<and> CrossReferenceError.type e = missing_reference
            \<and> source_schema e = ''procedure-plan''
            \<and> plan.source_envelope_id P = Val (target_id e)
            \<and> \<not> hasEnvelope (snd (validateCrossReferences reg docs)) (target_id e))
       \<or> (\<exists>R \<in> set (or_empty (documents.receipts docs)).
            source_id e = receipt.receipt_id R
            \<and> CrossReferenceError.type e = missing_reference
            \<and> field e = ''plan_id''
            \<and> receipt.plan_id R = Val (target_id e)
            \<and> \<not> hasPlan (snd (validateCrossReferences reg docs)) (target_id e))
       \<or> (\<exists>R \<in> set (or_empty (documents.receipts docs)).
            source_id e = receipt.receipt_id R
            \<and> CrossReferenceError.type e = missing_reference
            \<and> field e = ''source_envelope_id''
            \<and> receipt.source_envelope_id R = Val (target_id e)
            \<and> \<not> hasEnvelope (snd (validateCrossReferences reg docs)) (target_id e))"
proof -
  from assms consider
    (env) E where "E \<in> set (or_empty (documents.envelopes docs))"
      "e \<in> set (envelope_errors (snd (validateCrossReferences reg docs)) E)"
  | (pln) P where "P \<in> set (or_empty (documents.plans docs))"
      "e \<in> set (plan_errors (snd (validateCrossReferences reg docs)) P)"
  | (rct) R where "R \<in> set (or_empty (documents.receipts docs))"
      "e \<in> set (receipt_errors (snd (validateCrossReferences reg docs)) R)"
    using batch_error_cases by blast
  then show ?thesis
  proof cases
    case env
    from envelope_error_origin [OF env(2)] consider
      (missing) p where "parent_of (envelope.provenance E) = Val p"
        "\<not> hasEnvelope (snd (validateCrossReferences reg docs)) p"
        "e = parent_missing_error (envelope.envelope_id E) p"
    | (circular) "parent_of (envelope.provenance E) = Val (envelope.envelope_id E)"
        "e = circular_error (envelope.envelope_id E) (envelope.envelope_id E)"
    | (internal) "e \<in> set (errors (validateEnvelopeInternalRefs E))"
      by blast
    then show ?thesis
    proof cases
      case missing
      with env(1) show ?thesis
        by (intro disjI1 bexI [of _ E]) (simp_all add: parent_missing_error_def)
    next
      case circular
      with env(1) show ?thesis
        by (intro disjI1 bexI [of _ E]) (simp_all add: circular_error_def)
    next
      case internal
      from internal_error_origin [OF internal] obtain F r where
        F: "F \<in> set (or_empty (envelope.findings E))"
        and r: "r \<in> set (or_empty (evidence_refs F))"
          "r \<notin> artifactIds_of (or_empty (envelope.artifacts E))"
        and e: "e = artifact_error (envelope.envelope_id E) (finding_id F) r"
        by blast
      with env(1) show ?thesis
        by (intro disjI2 disjI1 bexI [of _ E] bexI [of _ F]) (simp_all add: artifact_error_def)
    qed
  next
    case pln
    from plan_error_origin [OF pln(2)] pln(1) show ?thesis
      by (intro disjI2 disjI1 bexI [of _ P]) (auto simp: plan_envelope_error_def)
  next
    case rct
    from receipt_error_origin [OF rct(2)] consider
      (plan_ref) t where "receipt.plan_id R = Val t"
        "\<not> hasPlan (snd (validateCrossReferences reg docs)) t"
        "e = receipt_plan_error (receipt.receipt_id R) t"
    | (envelope_ref) t where "receipt.source_envelope_id R = Val t"
        "\<not> hasEnvelope (snd (validateCrossReferences reg docs)) t"
        "e = receipt_envelope_error (receipt.receipt_id R) t"
      by blast
    then show ?thesis
    proof cases
      case plan_ref
      with rct(1) show ?thesis
        by (intro disjI2 disjI1 bexI [of _ R]) (simp_all add: receipt_plan_error_def)
    next
      case envelope_ref
      with rct(1) show ?thesis
        by (intro disjI2 bexI [of _ R]) (simp_all add: receipt_envelope_error_def)
    qed
  qed
qed

text \<open>
  The validation loop never reads the \<^verbatim>\<open>envelope_id\<close> of a receipt, the field the
  registration loop stores: a receipt that declares its envelope there only gets no error
  for it.
\<close>

lemma receipt_errors_ignore_envelope_id:
  "receipt_errors reg (r\<lparr>receipt.envelope_id := x\<rparr>) = receipt_errors reg r"
  by (simp add: receipt_errors_def check_receipt_def)

section \<open>The claims\<close>

subsection \<open>The batch validator on receipts\<close>

text \<open>
  Claim C1. The receipt \<^verbatim>\<open>R1\<close> declares a registered plan \<^verbatim>\<open>"P1"\<close> and, in its
  \<^verbatim>\<open>envelope_id\<close>, the envelope \<^verbatim>\<open>"E404"\<close> that no one registered. The registration
  loop reads that field and stores it in the projection of the receipt; the check loop
  reads \<^verbatim>\<open>source_envelope_id\<close> instead, which the receipt does not have. On this batch the
  code returns a valid result without any error, where one \<^verbatim>\<open>missing_reference\<close> error
  for the envelope reference is due.
\<close>

theorem receipt_envelope_id_declared_no_error:
  "receipt.plan_id example_scenario_receipt = Val ''P1''
   \<and> receipt.envelope_id example_scenario_receipt = Val ''E404''
   \<and> hasPlan (snd (validateCrossReferences new_EntityRegistry example_scenario_batch)) ''P1''
   \<and> \<not> hasEnvelope (snd (validateCrossReferences new_EntityRegistry example_scenario_batch))
         ''E404''
   \<and> EntityRegistry.receipts
         (snd (validateCrossReferences new_EntityRegistry example_scenario_batch)) ''R1''
       = Some \<lparr>ReceiptRef.plan_id = Val ''P1'', ReceiptRef.envelope_id = Val ''E404''\<rparr>
   \<and> fst (validateCrossReferences new_EntityRegistry example_scenario_batch)
       = \<lparr>valid = True, errors = [], warnings = []\<rparr>"
proof -
  have fields: "receipt.plan_id example_scenario_receipt = Val ''P1''"
    "receipt.envelope_id example_scenario_receipt = Val ''E404''"
    by (simp_all add: example_scenario_receipt_def)
  have known: "hasPlan
      (snd (validateCrossReferences new_EntityRegistry example_scenario_batch)) ''P1''"
    by (simp add: hasPlan_batch example_scenario_batch_def example_plan_def)
  have unknown: "\<not> hasEnvelope
      (snd (validateCrossReferences new_EntityRegistry example_scenario_batch)) ''E404''"
  proof -
    have "\<not> hasEnvelope new_EntityRegistry ''E404''"
      by (simp add: hasEnvelope_def new_EntityRegistry_def)
    then show ?thesis
      by (simp add: hasEnvelope_batch example_scenario_batch_def)
  qed
  have stored: "EntityRegistry.receipts
         (snd (validateCrossReferences new_EntityRegistry example_scenario_batch)) ''R1''
       = Some \<lparr>ReceiptRef.plan_id = Val ''P1'', ReceiptRef.envelope_id = Val ''E404''\<rparr>"
    by (simp add: validateCrossReferences_def Let_def example_scenario_batch_def
          example_scenario_receipt_def registerReceipt_def)
  have plan_clean: "plan_errors registry example_plan = []" for registry
    by (simp add: plan_errors_def check_plan_def example_plan_def)
  have receipt_clean: "receipt_errors
      (snd (validateCrossReferences new_EntityRegistry example_scenario_batch))
      example_scenario_receipt = []"
    using known
    by (simp add: receipt_errors_def check_receipt_def example_scenario_receipt_def)
  have lists: "or_empty (documents.envelopes example_scenario_batch) = []"
    "or_empty (documents.plans example_scenario_batch) = [example_plan]"
    "or_empty (documents.receipts example_scenario_batch) = [example_scenario_receipt]"
    by (simp_all add: example_scenario_batch_def)
  have no_errors:
    "errors (fst (validateCrossReferences new_EntityRegistry example_scenario_batch)) = []"
    by (simp add: batch_errors lists plan_clean receipt_clean)
  have no_warnings:
    "warnings (fst (validateCrossReferences new_EntityRegistry example_scenario_batch)) = []"
    by (simp add: batch_warnings lists)
  have result: "fst (validateCrossReferences new_EntityRegistry example_scenario_batch)
                  = \<lparr>valid = True, errors = [], warnings = []\<rparr>"
    using no_errors no_warnings
      batch_valid [of new_EntityRegistry example_scenario_batch]
    by (cases "fst (validateCrossReferences new_EntityRegistry example_scenario_batch)") simp
  from fields known unknown stored result show ?thesis
    by (intro conjI)
qed

text \<open>
  The check the loop does make: a receipt whose plan identifier is registered (by the
  batch or before it) and whose \<^verbatim>\<open>source_envelope_id\<close> is \<^verbatim>\<open>"E404"\<close>, registered
  nowhere, contributes exactly one error, the \<^verbatim>\<open>missing_reference\<close> error of the envelope
  reference, and none for the plan reference. The errors of the batch are the
  contributions of its documents, in order.
\<close>

theorem receipt_unregistered_envelope_single_error:
  assumes "R \<in> set (or_empty (documents.receipts docs))"
    and "receipt.plan_id R = Val p"
    and "p \<in> plan.plan_id ` set (or_empty (documents.plans docs)) \<or> hasPlan reg p"
    and "receipt.source_envelope_id R = Val ''E404''"
    and "''E404'' \<notin> envelope.envelope_id ` set (or_empty (documents.envelopes docs))"
    and "\<not> hasEnvelope reg ''E404''"
  shows "receipt_errors (snd (validateCrossReferences reg docs)) R =
           [\<lparr>CrossReferenceError.type = missing_reference,
             source_schema = ''receipt'',
             source_id = receipt.receipt_id R,
             target_schema = ''evidence-envelope'',
             target_id = ''E404'',
             field = ''source_envelope_id'',
             message = ''Receipt \"'' @ receipt.receipt_id R
                         @ ''\" references non-existent envelope \"E404\"''\<rparr>]
         \<and> errors (fst (validateCrossReferences reg docs)) =
             concat (map (envelope_errors (snd (validateCrossReferences reg docs)))
                       (or_empty (documents.envelopes docs)))
             @ concat (map (plan_errors (snd (validateCrossReferences reg docs)))
                         (or_empty (documents.plans docs)))
             @ concat (map (receipt_errors (snd (validateCrossReferences reg docs)))
                         (or_empty (documents.receipts docs)))"
proof -
  have plan_known: "hasPlan (snd (validateCrossReferences reg docs)) p"
    using assms(3) by (simp add: hasPlan_batch)
  have env_unknown: "\<not> hasEnvelope (snd (validateCrossReferences reg docs)) ''E404''"
    using assms(5,6) by (simp add: hasEnvelope_batch)
  have "receipt_errors (snd (validateCrossReferences reg docs)) R =
          [receipt_envelope_error (receipt.receipt_id R) ''E404'']"
    using plan_known env_unknown assms(2,4)
    by (simp add: receipt_errors_def check_receipt_def)
  then show ?thesis
    by (simp add: receipt_envelope_error_def batch_errors)
qed

theorem receipt_unregistered_envelope_single_error_witness:
  "example_receipt \<in> set (or_empty (documents.receipts example_batch))
   \<and> receipt.plan_id example_receipt = Val ''P1''
   \<and> ''P1'' \<in> plan.plan_id ` set (or_empty (documents.plans example_batch))
   \<and> receipt.source_envelope_id example_receipt = Val ''E404''
   \<and> \<not> hasEnvelope new_EntityRegistry ''E404''
   \<and> errors (fst (validateCrossReferences new_EntityRegistry example_batch)) =
       [\<lparr>CrossReferenceError.type = missing_reference,
         source_schema = ''receipt'',
         source_id = ''R1'',
         target_schema = ''evidence-envelope'',
         target_id = ''E404'',
         field = ''source_envelope_id'',
         message = ''Receipt \"R1\" references non-existent envelope \"E404\"''\<rparr>]"
proof -
  have h1: "example_receipt \<in> set (or_empty (documents.receipts example_batch))"
    by (simp add: example_batch_def)
  have h2: "receipt.plan_id example_receipt = Val ''P1''"
    by (simp add: example_receipt_def)
  have h3: "''P1'' \<in> plan.plan_id ` set (or_empty (documents.plans example_batch))
            \<or> hasPlan new_EntityRegistry ''P1''"
    by (simp add: example_batch_def example_plan_def)
  have h4: "receipt.source_envelope_id example_receipt = Val ''E404''"
    by (simp add: example_receipt_def)
  have h5: "''E404'' \<notin> envelope.envelope_id ` set (or_empty (documents.envelopes example_batch))"
    by (simp add: example_batch_def)
  have h6: "\<not> hasEnvelope new_EntityRegistry ''E404''"
    by (simp add: hasEnvelope_def new_EntityRegistry_def)
  have lists: "or_empty (documents.envelopes example_batch) = []"
    "or_empty (documents.plans example_batch) = [example_plan]"
    "or_empty (documents.receipts example_batch) = [example_receipt]"
    by (simp_all add: example_batch_def)
  have plan_clean: "plan_errors registry example_plan = []" for registry
    by (simp add: plan_errors_def check_plan_def example_plan_def)
  have rid: "receipt.receipt_id example_receipt = ''R1''"
    by (simp add: example_receipt_def)
  note main = receipt_unregistered_envelope_single_error [OF h1 h2 h3 h4 h5 h6]
  have "errors (fst (validateCrossReferences new_EntityRegistry example_batch)) =
          receipt_errors (snd (validateCrossReferences new_EntityRegistry example_batch))
            example_receipt"
    using conjunct2 [OF main] by (simp add: lists plan_clean)
  moreover have "''P1'' \<in> plan.plan_id ` set (or_empty (documents.plans example_batch))"
    by (simp add: example_batch_def example_plan_def)
  ultimately show ?thesis
    using conjunct1 [OF main] h1 h2 h4 h6 by (simp add: rid)
qed

subsection \<open>The registry\<close>

text \<open>
  Claim C2, as amended. Registering the same envelope identifier twice overwrites the
  envelope entry, and the artifact index only grows: afterwards \<^verbatim>\<open>hasArtifact\<close> holds
  exactly for the artifacts of the second registration, those of the first one and those
  indexed before. \<^verbatim>\<open>registerEnvelope\<close> never removes an artifact entry.
\<close>

theorem registerEnvelope_twice_accumulates:
  "getEnvelope (registerEnvelope (registerEnvelope reg E env1) E env2) E = Some env2
   \<and> hasEnvelope (registerEnvelope (registerEnvelope reg E env1) E env2) E
   \<and> (hasArtifact (registerEnvelope (registerEnvelope reg E env1) E env2) a \<longleftrightarrow>
        a \<in> set (artifact_ids env2) \<or> a \<in> set (artifact_ids env1) \<or> hasArtifact reg a)"
  by (simp add: getEnvelope_registerEnvelope hasEnvelope_registerEnvelope
        hasArtifact_registerEnvelope)

theorem registerEnvelope_twice_accumulates_witness:
  "getEnvelope (registerEnvelope (registerEnvelope new_EntityRegistry ''E''
       \<lparr>artifact_ids = [''A1''], EnvelopeRef.parent_envelope_id = Undefined\<rparr>) ''E''
       \<lparr>artifact_ids = [''A2''], EnvelopeRef.parent_envelope_id = Undefined\<rparr>) ''E''
     = Some \<lparr>artifact_ids = [''A2''], EnvelopeRef.parent_envelope_id = Undefined\<rparr>
   \<and> hasArtifact (registerEnvelope (registerEnvelope new_EntityRegistry ''E''
       \<lparr>artifact_ids = [''A1''], EnvelopeRef.parent_envelope_id = Undefined\<rparr>) ''E''
       \<lparr>artifact_ids = [''A2''], EnvelopeRef.parent_envelope_id = Undefined\<rparr>) ''A2''
   \<and> \<not> hasArtifact (registerEnvelope (registerEnvelope new_EntityRegistry ''E''
       \<lparr>artifact_ids = [''A1''], EnvelopeRef.parent_envelope_id = Undefined\<rparr>) ''E''
       \<lparr>artifact_ids = [''A2''], EnvelopeRef.parent_envelope_id = Undefined\<rparr>) ''A3''"
  using registerEnvelope_twice_accumulates [of new_EntityRegistry "''E''"
      "\<lparr>artifact_ids = [''A1''], EnvelopeRef.parent_envelope_id = Undefined\<rparr>"
      "\<lparr>artifact_ids = [''A2''], EnvelopeRef.parent_envelope_id = Undefined\<rparr>"]
  by (simp add: hasArtifact_def new_EntityRegistry_def)

text \<open>
  Claim C2 as stated fails: after registering \<^verbatim>\<open>"E"\<close> with artifacts \<^verbatim>\<open>["A1"]\<close> and
  then with \<^verbatim>\<open>["A2"]\<close>, the artifact \<^verbatim>\<open>"A1"\<close> of the first registration is still
  reported as present.
\<close>

theorem registerEnvelope_twice_counterexample:
  "\<not> (hasArtifact (registerEnvelope (registerEnvelope new_EntityRegistry ''E''
          \<lparr>artifact_ids = [''A1''], EnvelopeRef.parent_envelope_id = Undefined\<rparr>) ''E''
          \<lparr>artifact_ids = [''A2''], EnvelopeRef.parent_envelope_id = Undefined\<rparr>) ''A1''
        \<longleftrightarrow> ''A1'' \<in> set (artifact_ids
          \<lparr>artifact_ids = [''A2''], EnvelopeRef.parent_envelope_id = Undefined\<rparr>))"
  by (simp add: hasArtifact_def registerEnvelope_def new_EntityRegistry_def)

text \<open>
  Claim C8. After \<^verbatim>\<open>clear()\<close> every presence query answers false for every identifier,
  the registry is the one a fresh \<^verbatim>\<open>new EntityRegistry()\<close> gives, and clearing an empty
  registry leaves it empty.
\<close>

theorem clear_forgets_everything:
  "\<not> hasEnvelope (clear reg) ident \<and> \<not> hasPlan (clear reg) ident
   \<and> \<not> hasReceipt (clear reg) ident \<and> \<not> hasArtifact (clear reg) ident
   \<and> clear reg = new_EntityRegistry
   \<and> clear new_EntityRegistry = new_EntityRegistry"
  by (simp add: clear_def new_EntityRegistry_def hasEnvelope_def hasPlan_def hasReceipt_def
        hasArtifact_def)

theorem clear_forgets_everything_witness:
  "hasEnvelope example_registry ''E1'' \<and> hasPlan example_registry ''P1'' \<and> hasReceipt example_registry ''R1'' \<and> hasArtifact example_registry ''A1''
   \<and> \<not> hasEnvelope (clear example_registry) ''E1'' \<and> \<not> hasPlan (clear example_registry) ''P1''
   \<and> \<not> hasReceipt (clear example_registry) ''R1'' \<and> \<not> hasArtifact (clear example_registry) ''A1''"
  using clear_forgets_everything [of example_registry "''E1''"] clear_forgets_everything [of example_registry "''P1''"]
    clear_forgets_everything [of example_registry "''R1''"] clear_forgets_everything [of example_registry "''A1''"]
  by (simp add: example_registry_def hasEnvelope_def hasPlan_def hasReceipt_def hasArtifact_def
        registerEnvelope_def registerPlan_def registerReceipt_def new_EntityRegistry_def)

text \<open>
  Claim C7. Two runs of the batch validator on the same documents, each on a cleared
  registry, return the same result (validity flag, errors and warnings, in order): the
  second run on the registry the first one left behind, once cleared, and more generally
  any two runs on cleared registries.
\<close>

theorem validateCrossReferences_idempotent:
  "fst (validateCrossReferences (clear (snd (validateCrossReferences (clear reg) docs))) docs)
     = fst (validateCrossReferences (clear reg) docs)
   \<and> fst (validateCrossReferences (clear reg1) docs)
     = fst (validateCrossReferences (clear reg2) docs)"
  by (simp add: clear_new)

subsection \<open>The batch validator on envelopes\<close>

text \<open>
  Claim C3. In every batch, an envelope whose declared parent identifier is its own
  identifier contributes, for the parent reference, exactly one error: the
  \<^verbatim>\<open>circular_reference\<close> error with source and target both the envelope's identifier.
  No \<^verbatim>\<open>missing_reference\<close> error joins it, because the envelope is registered before the
  check; the only other errors of the envelope are those of the internal check, none of
  which is on the field \<^verbatim>\<open>provenance.parent_envelope_id\<close>.
\<close>

theorem self_parent_single_circular_error:
  assumes "E \<in> set (or_empty (documents.envelopes docs))"
    and "parent_of (envelope.provenance E) = Val (envelope.envelope_id E)"
  shows "envelope_errors (snd (validateCrossReferences reg docs)) E =
           \<lparr>CrossReferenceError.type = circular_reference,
            source_schema = ''evidence-envelope'',
            source_id = envelope.envelope_id E,
            target_schema = ''evidence-envelope'',
            target_id = envelope.envelope_id E,
            field = ''provenance.parent_envelope_id'',
            message = ''Envelope \"'' @ envelope.envelope_id E
                        @ ''\" references itself as parent''\<rparr>
           # errors (validateEnvelopeInternalRefs E)
         \<and> (\<forall>e \<in> set (errors (validateEnvelopeInternalRefs E)).
               field e \<noteq> ''provenance.parent_envelope_id'')
         \<and> errors (fst (validateCrossReferences reg docs)) =
             concat (map (envelope_errors (snd (validateCrossReferences reg docs)))
                       (or_empty (documents.envelopes docs)))
             @ concat (map (plan_errors (snd (validateCrossReferences reg docs)))
                         (or_empty (documents.plans docs)))
             @ concat (map (receipt_errors (snd (validateCrossReferences reg docs)))
                         (or_empty (documents.receipts docs)))"
proof -
  have "envelope_errors (snd (validateCrossReferences reg docs)) E =
          circular_error (envelope.envelope_id E) (envelope.envelope_id E)
          # errors (validateEnvelopeInternalRefs E)"
    using assms(2) hasEnvelope_self [OF assms(1), of reg]
    by (simp add: envelope_errors_def check_envelope_def Let_def)
  moreover have "\<forall>e \<in> set (errors (validateEnvelopeInternalRefs E)).
                   field e \<noteq> ''provenance.parent_envelope_id''"
    using internal_error_field by blast
  ultimately show ?thesis
    by (simp add: circular_error_def batch_errors)
qed

theorem self_parent_single_circular_error_witness:
  "example_self_parent \<in> set (or_empty (documents.envelopes example_self_parent_batch))
   \<and> parent_of (envelope.provenance example_self_parent)
       = Val (envelope.envelope_id example_self_parent)
   \<and> errors (fst (validateCrossReferences new_EntityRegistry example_self_parent_batch)) =
       [\<lparr>CrossReferenceError.type = circular_reference,
         source_schema = ''evidence-envelope'',
         source_id = ''E1'',
         target_schema = ''evidence-envelope'',
         target_id = ''E1'',
         field = ''provenance.parent_envelope_id'',
         message = ''Envelope \"E1\" references itself as parent''\<rparr>]"
proof -
  have h1: "example_self_parent \<in> set (or_empty (documents.envelopes example_self_parent_batch))"
    by (simp add: example_self_parent_batch_def)
  have h2: "parent_of (envelope.provenance example_self_parent)
              = Val (envelope.envelope_id example_self_parent)"
    by (simp add: example_self_parent_def)
  have lists: "or_empty (documents.envelopes example_self_parent_batch) = [example_self_parent]"
    "or_empty (documents.plans example_self_parent_batch) = []"
    "or_empty (documents.receipts example_self_parent_batch) = []"
    by (simp_all add: example_self_parent_batch_def)
  have internal: "errors (validateEnvelopeInternalRefs example_self_parent) = []"
    by (simp add: errors_internal example_self_parent_def)
  have eid: "envelope.envelope_id example_self_parent = ''E1''"
    by (simp add: example_self_parent_def)
  note main = self_parent_single_circular_error [OF h1 h2, of new_EntityRegistry]
  have "errors (fst (validateCrossReferences new_EntityRegistry example_self_parent_batch)) =
          envelope_errors
            (snd (validateCrossReferences new_EntityRegistry example_self_parent_batch))
            example_self_parent"
    using conjunct2 [OF conjunct2 [OF main]] by (simp add: lists)
  then show ?thesis
    using conjunct1 [OF main] h1 h2 by (simp add: internal eid)
qed

text \<open>
  Claim C9. In every batch, an envelope that declares a parent (a non-empty string, what
  the truthiness test of the code accepts) yields the warning that the parent cannot be
  verified without registry, whatever the registry holds: the warnings of the batch are
  the warnings of the internal check of each envelope, in order. The witness is a batch in
  which the parent is registered and the result is valid.
\<close>

theorem batch_parent_warning_unconditional:
  assumes "E \<in> set (or_empty (documents.envelopes docs))"
    and "parent_of (envelope.provenance E) = Val parent"
    and "parent \<noteq> []"
  shows "\<lparr>CrossReferenceWarning.type = unverified_reference,
          CrossReferenceWarning.message =
            ''Parent envelope \"'' @ parent @ ''\" cannot be verified without registry''\<rparr>
           \<in> set (warnings (fst (validateCrossReferences reg docs)))
         \<and> warnings (fst (validateCrossReferences reg docs)) =
             concat (map (\<lambda>env. warnings (validateEnvelopeInternalRefs env))
                       (or_empty (documents.envelopes docs)))"
proof -
  have "warnings (validateEnvelopeInternalRefs E) = [parent_warning parent]"
    using assms(2,3) by (simp add: warnings_internal)
  then have "parent_warning parent \<in> set (warnings (fst (validateCrossReferences reg docs)))"
    using assms(1) by (auto simp: batch_warnings intro!: bexI [of _ E])
  then show ?thesis
    by (simp add: parent_warning_def batch_warnings)
qed

theorem batch_parent_warning_unconditional_witness:
  "example_child \<in> set (or_empty (documents.envelopes example_family))
   \<and> parent_of (envelope.provenance example_child) = Val ''E1''
   \<and> hasEnvelope (snd (validateCrossReferences new_EntityRegistry example_family)) ''E1''
   \<and> fst (validateCrossReferences new_EntityRegistry example_family) =
       \<lparr>valid = True, errors = [],
        warnings = [\<lparr>CrossReferenceWarning.type = unverified_reference,
                     CrossReferenceWarning.message =
                       ''Parent envelope \"E1\" cannot be verified without registry''\<rparr>]\<rparr>"
proof -
  have h1: "example_child \<in> set (or_empty (documents.envelopes example_family))"
    by (simp add: example_family_def)
  have h2: "parent_of (envelope.provenance example_child) = Val ''E1''"
    by (simp add: example_child_def)
  have h3: "''E1'' \<noteq> []"
    by simp
  have known: "hasEnvelope (snd (validateCrossReferences new_EntityRegistry example_family)) ''E1''"
    by (simp add: hasEnvelope_batch example_family_def example_root_def)
  have lists: "or_empty (documents.envelopes example_family) = [example_child, example_root]"
    "or_empty (documents.plans example_family) = []"
    "or_empty (documents.receipts example_family) = []"
    by (simp_all add: example_family_def)
  have child: "envelope_errors (snd (validateCrossReferences new_EntityRegistry example_family))
                 example_child = []"
    using known
    by (simp add: envelope_errors_def check_envelope_def Let_def errors_internal
          example_child_def)
  have root: "envelope_errors registry example_root = []" for registry
    by (simp add: envelope_errors_def check_envelope_def Let_def errors_internal
          example_root_def artifactIds_of_def)
  have no_errors: "errors (fst (validateCrossReferences new_EntityRegistry example_family)) = []"
    by (simp add: batch_errors lists child root)
  have root_warn: "warnings (validateEnvelopeInternalRefs example_root) = []"
    by (simp add: warnings_internal example_root_def)
  have child_warn: "warnings (validateEnvelopeInternalRefs example_child) =
      [\<lparr>CrossReferenceWarning.type = unverified_reference,
        CrossReferenceWarning.message =
          ''Parent envelope \"E1\" cannot be verified without registry''\<rparr>]"
    by (simp add: warnings_internal example_child_def parent_warning_def)
  note main = batch_parent_warning_unconditional [OF h1 h2 h3, of new_EntityRegistry]
  have "warnings (fst (validateCrossReferences new_EntityRegistry example_family)) =
      [\<lparr>CrossReferenceWarning.type = unverified_reference,
        CrossReferenceWarning.message =
          ''Parent envelope \"E1\" cannot be verified without registry''\<rparr>]"
    using conjunct2 [OF main] by (simp add: lists root_warn child_warn)
  moreover have "valid (fst (validateCrossReferences new_EntityRegistry example_family))"
    by (simp add: batch_valid no_errors)
  ultimately have "fst (validateCrossReferences new_EntityRegistry example_family) =
       \<lparr>valid = True, errors = [],
        warnings = [\<lparr>CrossReferenceWarning.type = unverified_reference,
                     CrossReferenceWarning.message =
                       ''Parent envelope \"E1\" cannot be verified without registry''\<rparr>]\<rparr>"
    using no_errors
    by (cases "fst (validateCrossReferences new_EntityRegistry example_family)") simp
  then show ?thesis
    using h1 h2 known by simp
qed

subsection \<open>The incremental validator\<close>

text \<open>
  Claim C5. For every registry and every envelope document whose declared parent (a
  non-empty string) is not known to the registry, the incremental validator with kind
  \<^verbatim>\<open>"envelope"\<close> reports the unresolved parent as an \<^verbatim>\<open>unverified_reference\<close> warning and
  never as an error: its errors, and so its validity flag, are exactly those of the
  internal check, all of them artifact references.
\<close>

theorem incremental_envelope_parent_is_warning:
  assumes "parent_of (envelope.provenance doc) = Val parentId"
    and "parentId \<noteq> []"
    and "\<not> hasEnvelope reg parentId"
  shows "errors (validateDocumentRefs reg (Envelope doc)) =
           errors (validateEnvelopeInternalRefs doc)
         \<and> valid (validateDocumentRefs reg (Envelope doc)) =
             valid (validateEnvelopeInternalRefs doc)
         \<and> (\<forall>e \<in> set (errors (validateDocumentRefs reg (Envelope doc))).
               target_schema e = ''artifact''
               \<and> field e \<noteq> ''provenance.parent_envelope_id'')
         \<and> \<lparr>CrossReferenceWarning.type = unverified_reference,
             CrossReferenceWarning.message =
               ''Parent envelope \"'' @ parentId @ ''\" not in registry''\<rparr>
             \<in> set (warnings (validateDocumentRefs reg (Envelope doc)))"
proof -
  have "errors (validateDocumentRefs reg (Envelope doc)) =
          errors (validateEnvelopeInternalRefs doc)"
    by (simp add: Let_def)
  moreover have "valid (validateDocumentRefs reg (Envelope doc)) =
                   valid (validateEnvelopeInternalRefs doc)"
    by (simp add: Let_def valid_internal)
  moreover have "not_in_registry_warning parentId
                   \<in> set (warnings (validateDocumentRefs reg (Envelope doc)))"
    using assms by (simp add: Let_def)
  ultimately show ?thesis
    using internal_error_field [of _ doc] by (simp add: not_in_registry_warning_def)
qed

theorem incremental_envelope_parent_is_warning_witness:
  "parent_of (envelope.provenance example_child) = Val ''E1''
   \<and> \<not> hasEnvelope new_EntityRegistry ''E1''
   \<and> errors (validateDocumentRefs new_EntityRegistry (Envelope example_child)) = []
   \<and> valid (validateDocumentRefs new_EntityRegistry (Envelope example_child))
   \<and> \<lparr>CrossReferenceWarning.type = unverified_reference,
       CrossReferenceWarning.message = ''Parent envelope \"E1\" not in registry''\<rparr>
       \<in> set (warnings (validateDocumentRefs new_EntityRegistry (Envelope example_child)))"
proof -
  have h1: "parent_of (envelope.provenance example_child) = Val ''E1''"
    by (simp add: example_child_def)
  have h2: "''E1'' \<noteq> []"
    by simp
  have h3: "\<not> hasEnvelope new_EntityRegistry ''E1''"
    by (simp add: hasEnvelope_def new_EntityRegistry_def)
  have internal: "errors (validateEnvelopeInternalRefs example_child) = []"
    by (simp add: errors_internal example_child_def)
  show ?thesis
    using incremental_envelope_parent_is_warning [OF h1 h2 h3] h1 h3
    by (simp add: internal valid_internal del: validateDocumentRefs.simps)
qed

text \<open>
  Claim C10. For an envelope document with a declared parent (a non-empty string), the
  incremental validator returns exactly two \<^verbatim>\<open>unverified_reference\<close> warnings when the
  parent is not in the registry, the internal one followed by the registry one, and exactly
  the internal one when the parent is in the registry.
\<close>

theorem incremental_envelope_warning_count:
  assumes "parent_of (envelope.provenance doc) = Val parentId"
    and "parentId \<noteq> []"
  shows "(\<not> hasEnvelope reg parentId \<longrightarrow>
            warnings (validateDocumentRefs reg (Envelope doc)) =
              [\<lparr>CrossReferenceWarning.type = unverified_reference,
                CrossReferenceWarning.message =
                  ''Parent envelope \"'' @ parentId
                  @ ''\" cannot be verified without registry''\<rparr>,
               \<lparr>CrossReferenceWarning.type = unverified_reference,
                CrossReferenceWarning.message =
                  ''Parent envelope \"'' @ parentId @ ''\" not in registry''\<rparr>])
         \<and> (hasEnvelope reg parentId \<longrightarrow>
              warnings (validateDocumentRefs reg (Envelope doc)) =
                [\<lparr>CrossReferenceWarning.type = unverified_reference,
                  CrossReferenceWarning.message =
                    ''Parent envelope \"'' @ parentId
                    @ ''\" cannot be verified without registry''\<rparr>])"
  using assms
  by (simp add: Let_def warnings_internal parent_warning_def not_in_registry_warning_def)

theorem incremental_envelope_warning_count_witness:
  "parent_of (envelope.provenance example_child) = Val ''E1''
   \<and> \<not> hasEnvelope new_EntityRegistry ''E1''
   \<and> warnings (validateDocumentRefs new_EntityRegistry (Envelope example_child)) =
       [\<lparr>CrossReferenceWarning.type = unverified_reference,
         CrossReferenceWarning.message =
           ''Parent envelope \"E1\" cannot be verified without registry''\<rparr>,
        \<lparr>CrossReferenceWarning.type = unverified_reference,
         CrossReferenceWarning.message = ''Parent envelope \"E1\" not in registry''\<rparr>]
   \<and> hasEnvelope example_registry ''E1''
   \<and> warnings (validateDocumentRefs example_registry (Envelope example_child)) =
       [\<lparr>CrossReferenceWarning.type = unverified_reference,
         CrossReferenceWarning.message =
           ''Parent envelope \"E1\" cannot be verified without registry''\<rparr>]"
proof -
  have h1: "parent_of (envelope.provenance example_child) = Val ''E1''"
    by (simp add: example_child_def)
  have h2: "''E1'' \<noteq> []"
    by simp
  have unknown: "\<not> hasEnvelope new_EntityRegistry ''E1''"
    by (simp add: hasEnvelope_def new_EntityRegistry_def)
  have known: "hasEnvelope example_registry ''E1''"
    by (simp add: example_registry_def hasEnvelope_def registerReceipt_def registerPlan_def
          registerEnvelope_def)
  show ?thesis
    using incremental_envelope_warning_count [OF h1 h2, of new_EntityRegistry]
      incremental_envelope_warning_count [OF h1 h2, of example_registry] h1 unknown known
    by (simp del: validateDocumentRefs.simps)
qed

text \<open>
  Claim C6. For every registry and every receipt document, the incremental validator with
  kind \<^verbatim>\<open>"receipt"\<close> emits the \<^verbatim>\<open>missing_reference\<close> error of the plan reference when a
  declared plan identifier is unknown, emits no other error and no warning, and its result
  does not depend on the envelope identifiers of the receipt, declared and unknown or not.
\<close>

theorem incremental_receipt_checks_plan_only:
  "(\<forall>planId. receipt.plan_id doc = Val planId \<longrightarrow> planId \<noteq> [] \<longrightarrow> \<not> hasPlan reg planId \<longrightarrow>
      errors (validateDocumentRefs reg (Receipt doc)) =
        [\<lparr>CrossReferenceError.type = missing_reference,
          source_schema = ''receipt'',
          source_id = receipt.receipt_id doc,
          target_schema = ''procedure-plan'',
          target_id = planId,
          field = ''plan_id'',
          message = ''Receipt references non-existent plan \"'' @ planId @ ''\"''\<rparr>])
   \<and> (\<forall>e \<in> set (errors (validateDocumentRefs reg (Receipt doc))).
         target_schema e = ''procedure-plan'' \<and> field e = ''plan_id''
         \<and> receipt.plan_id doc = Val (target_id e) \<and> \<not> hasPlan reg (target_id e))
   \<and> warnings (validateDocumentRefs reg (Receipt doc)) = []
   \<and> validateDocumentRefs reg
         (Receipt (doc\<lparr>receipt.envelope_id := a, receipt.source_envelope_id := b\<rparr>))
       = validateDocumentRefs reg (Receipt doc)"
  by (auto simp: Let_def document_receipt_error_def split: js.splits)

theorem incremental_receipt_checks_plan_only_witness:
  "receipt.plan_id example_orphan_receipt = Val ''P9''
   \<and> \<not> hasPlan new_EntityRegistry ''P9''
   \<and> receipt.source_envelope_id example_orphan_receipt = Val ''E404''
   \<and> receipt.envelope_id example_orphan_receipt = Val ''E404''
   \<and> \<not> hasEnvelope new_EntityRegistry ''E404''
   \<and> validateDocumentRefs new_EntityRegistry (Receipt example_orphan_receipt) =
       \<lparr>valid = False,
        errors = [\<lparr>CrossReferenceError.type = missing_reference,
                   source_schema = ''receipt'',
                   source_id = ''R2'',
                   target_schema = ''procedure-plan'',
                   target_id = ''P9'',
                   field = ''plan_id'',
                   message = ''Receipt references non-existent plan \"P9\"''\<rparr>],
        warnings = []\<rparr>"
  using incremental_receipt_checks_plan_only [of example_orphan_receipt new_EntityRegistry]
  by (simp add: example_orphan_receipt_def hasPlan_def hasEnvelope_def new_EntityRegistry_def
        document_receipt_error_def)

subsection \<open>Absent optional fields\<close>

text \<open>
  Claim C4, as amended. The three entry points are total on documents whose optional fields
  (parent envelope identifier, source envelope identifier of a plan, plan and envelope
  identifiers of a receipt, findings, artifacts, evidence references, and the document
  lists of a batch) are absent or null, and an absent field yields no error: every error
  comes from a field that is present. A \<^verbatim>\<open>missing_reference\<close> error names a present
  reference that does not resolve (in the registry, or among the artifacts of the same
  envelope); a \<^verbatim>\<open>circular_reference\<close> error names a present parent identifier equal to the
  envelope's own. With the fields absent the results are the clean result, and absent
  artifacts count as no artifacts.
\<close>

theorem errors_only_from_present_references:
  "(\<forall>e \<in> set (errors (validateEnvelopeInternalRefs env)).
       \<exists>F \<in> set (or_empty (envelope.findings env)).
         CrossReferenceError.type e = missing_reference
         \<and> target_id e \<in> set (or_empty (evidence_refs F))
         \<and> target_id e \<notin> artifactIds_of (or_empty (envelope.artifacts env)))
   \<and> (absent (envelope.findings env) \<and> absent (parent_of (envelope.provenance env)) \<longrightarrow>
       validateEnvelopeInternalRefs env = \<lparr>valid = True, errors = [], warnings = []\<rparr>)
   \<and> ((\<forall>F \<in> set (or_empty (envelope.findings env)). absent (evidence_refs F)) \<longrightarrow>
       errors (validateEnvelopeInternalRefs env) = [])
   \<and> (absent (envelope.artifacts env) \<longrightarrow>
       validateEnvelopeInternalRefs env =
         validateEnvelopeInternalRefs (env\<lparr>envelope.artifacts := Val []\<rparr>))
   \<and> errors (validateDocumentRefs reg (Envelope env)) = errors (validateEnvelopeInternalRefs env)
   \<and> (absent (parent_of (envelope.provenance env)) \<longrightarrow>
       validateDocumentRefs reg (Envelope env) = validateEnvelopeInternalRefs env)
   \<and> (\<forall>e \<in> set (errors (validateDocumentRefs reg (Plan pl))).
       plan.source_envelope_id pl = Val (target_id e) \<and> \<not> hasEnvelope reg (target_id e))
   \<and> (absent (plan.source_envelope_id pl) \<longrightarrow>
       validateDocumentRefs reg (Plan pl) = \<lparr>valid = True, errors = [], warnings = []\<rparr>)
   \<and> (\<forall>e \<in> set (errors (validateDocumentRefs reg (Receipt rc))).
       receipt.plan_id rc = Val (target_id e) \<and> \<not> hasPlan reg (target_id e))
   \<and> (absent (receipt.plan_id rc) \<longrightarrow>
       validateDocumentRefs reg (Receipt rc) = \<lparr>valid = True, errors = [], warnings = []\<rparr>)
   \<and> (absent (documents.envelopes docs) \<and> absent (documents.plans docs)
       \<and> absent (documents.receipts docs) \<longrightarrow>
       fst (validateCrossReferences reg docs) = \<lparr>valid = True, errors = [], warnings = []\<rparr>)
   \<and> (\<forall>e \<in> set (errors (fst (validateCrossReferences reg docs))).
       (\<exists>E \<in> set (or_empty (documents.envelopes docs)).
          source_id e = envelope.envelope_id E
          \<and> field e = ''provenance.parent_envelope_id''
          \<and> parent_of (envelope.provenance E) = Val (target_id e)
          \<and> (CrossReferenceError.type e = missing_reference
                \<and> \<not> hasEnvelope (snd (validateCrossReferences reg docs)) (target_id e)
              \<or> CrossReferenceError.type e = circular_reference
                \<and> target_id e = envelope.envelope_id E))
       \<or> (\<exists>E \<in> set (or_empty (documents.envelopes docs)).
            \<exists>F \<in> set (or_empty (envelope.findings E)).
              source_id e = envelope.envelope_id E
              \<and> CrossReferenceError.type e = missing_reference
              \<and> target_schema e = ''artifact''
              \<and> target_id e \<in> set (or_empty (evidence_refs F))
              \<and> target_id e \<notin> artifactIds_of (or_empty (envelope.artifacts E)))
       \<or> (\<exists>P \<in> set (or_empty (documents.plans docs)).
            source_id e = plan.plan_id P
            \<and> CrossReferenceError.type e = missing_reference
            \<and> source_schema e = ''procedure-plan''
            \<and> plan.source_envelope_id P = Val (target_id e)
            \<and> \<not> hasEnvelope (snd (validateCrossReferences reg docs)) (target_id e))
       \<or> (\<exists>R \<in> set (or_empty (documents.receipts docs)).
            source_id e = receipt.receipt_id R
            \<and> CrossReferenceError.type e = missing_reference
            \<and> field e = ''plan_id''
            \<and> receipt.plan_id R = Val (target_id e)
            \<and> \<not> hasPlan (snd (validateCrossReferences reg docs)) (target_id e))
       \<or> (\<exists>R \<in> set (or_empty (documents.receipts docs)).
            source_id e = receipt.receipt_id R
            \<and> CrossReferenceError.type e = missing_reference
            \<and> field e = ''source_envelope_id''
            \<and> receipt.source_envelope_id R = Val (target_id e)
            \<and> \<not> hasEnvelope (snd (validateCrossReferences reg docs)) (target_id e)))"
proof (intro conjI)
  show "(\<forall>e \<in> set (errors (validateEnvelopeInternalRefs env)).
         \<exists>F \<in> set (or_empty (envelope.findings env)).
           CrossReferenceError.type e = missing_reference
           \<and> target_id e \<in> set (or_empty (evidence_refs F))
           \<and> target_id e \<notin> artifactIds_of (or_empty (envelope.artifacts env)))"
    by (rule internal_error_present)
  show "(absent (envelope.findings env) \<and> absent (parent_of (envelope.provenance env)) \<longrightarrow>
         validateEnvelopeInternalRefs env = \<lparr>valid = True, errors = [], warnings = []\<rparr>)"
    using internal_absent_clean by blast
  show "((\<forall>F \<in> set (or_empty (envelope.findings env)). absent (evidence_refs F)) \<longrightarrow>
         errors (validateEnvelopeInternalRefs env) = [])"
    using internal_absent_refs by blast
  show "(absent (envelope.artifacts env) \<longrightarrow>
         validateEnvelopeInternalRefs env =
           validateEnvelopeInternalRefs (env\<lparr>envelope.artifacts := Val []\<rparr>))"
    using internal_absent_artifacts by blast
  show "errors (validateDocumentRefs reg (Envelope env)) = errors (validateEnvelopeInternalRefs env)"
    by (simp add: Let_def)
  show "(absent (parent_of (envelope.provenance env)) \<longrightarrow>
         validateDocumentRefs reg (Envelope env) = validateEnvelopeInternalRefs env)"
    using incremental_envelope_absent_parent by blast
  show "(\<forall>e \<in> set (errors (validateDocumentRefs reg (Plan pl))).
         plan.source_envelope_id pl = Val (target_id e) \<and> \<not> hasEnvelope reg (target_id e))"
    by (rule incremental_plan_origin)
  show "(absent (plan.source_envelope_id pl) \<longrightarrow>
         validateDocumentRefs reg (Plan pl) = \<lparr>valid = True, errors = [], warnings = []\<rparr>)"
    using incremental_plan_absent by blast
  show "(\<forall>e \<in> set (errors (validateDocumentRefs reg (Receipt rc))).
         receipt.plan_id rc = Val (target_id e) \<and> \<not> hasPlan reg (target_id e))"
    by (rule incremental_receipt_origin)
  show "(absent (receipt.plan_id rc) \<longrightarrow>
         validateDocumentRefs reg (Receipt rc) = \<lparr>valid = True, errors = [], warnings = []\<rparr>)"
    using incremental_receipt_absent by blast
  show "(absent (documents.envelopes docs) \<and> absent (documents.plans docs)
         \<and> absent (documents.receipts docs) \<longrightarrow>
         fst (validateCrossReferences reg docs) = \<lparr>valid = True, errors = [], warnings = []\<rparr>)"
    using batch_absent_lists by blast
  show "(\<forall>e \<in> set (errors (fst (validateCrossReferences reg docs))).
         (\<exists>E \<in> set (or_empty (documents.envelopes docs)).
            source_id e = envelope.envelope_id E
            \<and> field e = ''provenance.parent_envelope_id''
            \<and> parent_of (envelope.provenance E) = Val (target_id e)
            \<and> (CrossReferenceError.type e = missing_reference
                  \<and> \<not> hasEnvelope (snd (validateCrossReferences reg docs)) (target_id e)
                \<or> CrossReferenceError.type e = circular_reference
                  \<and> target_id e = envelope.envelope_id E))
         \<or> (\<exists>E \<in> set (or_empty (documents.envelopes docs)).
              \<exists>F \<in> set (or_empty (envelope.findings E)).
                source_id e = envelope.envelope_id E
                \<and> CrossReferenceError.type e = missing_reference
                \<and> target_schema e = ''artifact''
                \<and> target_id e \<in> set (or_empty (evidence_refs F))
                \<and> target_id e \<notin> artifactIds_of (or_empty (envelope.artifacts E)))
         \<or> (\<exists>P \<in> set (or_empty (documents.plans docs)).
              source_id e = plan.plan_id P
              \<and> CrossReferenceError.type e = missing_reference
              \<and> source_schema e = ''procedure-plan''
              \<and> plan.source_envelope_id P = Val (target_id e)
              \<and> \<not> hasEnvelope (snd (validateCrossReferences reg docs)) (target_id e))
         \<or> (\<exists>R \<in> set (or_empty (documents.receipts docs)).
              source_id e = receipt.receipt_id R
              \<and> CrossReferenceError.type e = missing_reference
              \<and> field e = ''plan_id''
              \<and> receipt.plan_id R = Val (target_id e)
              \<and> \<not> hasPlan (snd (validateCrossReferences reg docs)) (target_id e))
         \<or> (\<exists>R \<in> set (or_empty (documents.receipts docs)).
              source_id e = receipt.receipt_id R
              \<and> CrossReferenceError.type e = missing_reference
              \<and> field e = ''source_envelope_id''
              \<and> receipt.source_envelope_id R = Val (target_id e)
              \<and> \<not> hasEnvelope (snd (validateCrossReferences reg docs)) (target_id e)))"
    by (rule ballI) (rule batch_error_present)
qed

theorem errors_only_from_present_references_witness:
  "validateEnvelopeInternalRefs example_bare_envelope =
     \<lparr>valid = True, errors = [], warnings = []\<rparr>
   \<and> validateDocumentRefs new_EntityRegistry (Envelope example_bare_envelope) =
       \<lparr>valid = True, errors = [], warnings = []\<rparr>
   \<and> validateDocumentRefs new_EntityRegistry (Plan example_plan) =
       \<lparr>valid = True, errors = [], warnings = []\<rparr>
   \<and> validateDocumentRefs new_EntityRegistry (Receipt example_bare_receipt) =
       \<lparr>valid = True, errors = [], warnings = []\<rparr>
   \<and> fst (validateCrossReferences new_EntityRegistry example_absent_batch) =
       \<lparr>valid = True, errors = [], warnings = []\<rparr>
   \<and> fst (validateCrossReferences new_EntityRegistry
            \<lparr>documents.envelopes = Undefined, documents.plans = Null,
             documents.receipts = Undefined\<rparr>) =
       \<lparr>valid = True, errors = [], warnings = []\<rparr>"
proof -
  note main = errors_only_from_present_references
      [of example_bare_envelope new_EntityRegistry example_plan example_bare_receipt
          example_absent_batch]
  note lists = errors_only_from_present_references
      [of example_bare_envelope new_EntityRegistry example_plan example_bare_receipt
          "\<lparr>documents.envelopes = Undefined, documents.plans = Null,
            documents.receipts = Undefined\<rparr>"]
  note rest1 = main [THEN conjunct2]
  note rest2 = rest1 [THEN conjunct2]
  note rest3 = rest2 [THEN conjunct2]
  note rest4 = rest3 [THEN conjunct2]
  note rest5 = rest4 [THEN conjunct2]
  note rest6 = rest5 [THEN conjunct2]
  note rest7 = rest6 [THEN conjunct2]
  note rest8 = rest7 [THEN conjunct2]
  note rest9 = rest8 [THEN conjunct2]
  note rest10 = rest9 [THEN conjunct2]
  note internal_clean = rest1 [THEN conjunct1]
  note envelope_same = rest5 [THEN conjunct1]
  note plan_clean = rest7 [THEN conjunct1]
  note receipt_clean = rest9 [THEN conjunct1]
  note origin = rest10 [THEN conjunct2]
  note lists_clean = lists [THEN conjunct2, THEN conjunct2, THEN conjunct2, THEN conjunct2,
      THEN conjunct2, THEN conjunct2, THEN conjunct2, THEN conjunct2, THEN conjunct2,
      THEN conjunct2, THEN conjunct1]
  have a1: "absent (envelope.findings example_bare_envelope)"
    and a2: "absent (parent_of (envelope.provenance example_bare_envelope))"
    by (simp_all add: example_bare_envelope_def)
  have a3: "absent (plan.source_envelope_id example_plan)"
    by (simp add: example_plan_def)
  have a4: "absent (receipt.plan_id example_bare_receipt)"
    by (simp add: example_bare_receipt_def)
  have internal: "validateEnvelopeInternalRefs example_bare_envelope =
                    \<lparr>valid = True, errors = [], warnings = []\<rparr>"
    using internal_clean a1 a2 by simp
  have envelope_doc: "validateDocumentRefs new_EntityRegistry (Envelope example_bare_envelope) =
                        \<lparr>valid = True, errors = [], warnings = []\<rparr>"
    using envelope_same a2 internal by simp
  have plan_doc: "validateDocumentRefs new_EntityRegistry (Plan example_plan) =
                    \<lparr>valid = True, errors = [], warnings = []\<rparr>"
    using plan_clean a3 by simp
  have receipt_doc: "validateDocumentRefs new_EntityRegistry (Receipt example_bare_receipt) =
                       \<lparr>valid = True, errors = [], warnings = []\<rparr>"
    using receipt_clean a4 by simp
  have no_error: "errors (fst (validateCrossReferences new_EntityRegistry example_absent_batch))
                    = []"
  proof (rule ccontr)
    assume "errors (fst (validateCrossReferences new_EntityRegistry example_absent_batch)) \<noteq> []"
    then obtain e where
      "e \<in> set (errors (fst (validateCrossReferences new_EntityRegistry example_absent_batch)))"
      by (meson last_in_set)
    with origin show False
      by (auto simp: example_absent_batch_def example_bare_envelope_def example_plan_def
            example_bare_receipt_def)
  qed
  have "warnings (fst (validateCrossReferences new_EntityRegistry example_absent_batch)) = []"
    by (simp add: batch_warnings example_absent_batch_def internal)
  with no_error
  have batch: "fst (validateCrossReferences new_EntityRegistry example_absent_batch) =
                 \<lparr>valid = True, errors = [], warnings = []\<rparr>"
    using batch_valid [of new_EntityRegistry example_absent_batch]
    by (cases "fst (validateCrossReferences new_EntityRegistry example_absent_batch)") simp
  have empty: "fst (validateCrossReferences new_EntityRegistry
            \<lparr>documents.envelopes = Undefined, documents.plans = Null,
             documents.receipts = Undefined\<rparr>) =
       \<lparr>valid = True, errors = [], warnings = []\<rparr>"
    using lists_clean by simp
  from internal envelope_doc plan_doc receipt_doc batch empty show ?thesis
    by (intro conjI)
qed

text \<open>
  Claim C4 as stated fails in its last clause, that only an unresolvable reference
  produces an error: the parent reference of a self-parenting envelope is present and
  resolves in the registry, and the batch validator reports an error for it.
\<close>

theorem resolvable_self_parent_error_counterexample:
  "parent_of (envelope.provenance example_self_parent) = Val ''E1''
   \<and> hasEnvelope (snd (validateCrossReferences new_EntityRegistry example_self_parent_batch))
       ''E1''
   \<and> errors (fst (validateCrossReferences new_EntityRegistry example_self_parent_batch)) =
       [\<lparr>CrossReferenceError.type = circular_reference,
         source_schema = ''evidence-envelope'',
         source_id = ''E1'',
         target_schema = ''evidence-envelope'',
         target_id = ''E1'',
         field = ''provenance.parent_envelope_id'',
         message = ''Envelope \"E1\" references itself as parent''\<rparr>]"
proof -
  have known: "hasEnvelope
      (snd (validateCrossReferences new_EntityRegistry example_self_parent_batch)) ''E1''"
    by (simp add: hasEnvelope_batch example_self_parent_batch_def example_self_parent_def)
  have internal: "errors (validateEnvelopeInternalRefs example_self_parent) = []"
    by (simp add: errors_internal example_self_parent_def)
  have "envelope_errors
          (snd (validateCrossReferences new_EntityRegistry example_self_parent_batch))
          example_self_parent = [circular_error ''E1'' ''E1'']"
    using known
    by (simp add: envelope_errors_def check_envelope_def Let_def internal)
       (simp add: example_self_parent_def)
  then have "errors (fst (validateCrossReferences new_EntityRegistry example_self_parent_batch))
               = [circular_error ''E1'' ''E1'']"
    by (simp add: batch_errors) (simp add: example_self_parent_batch_def)
  with known show ?thesis
    by (simp add: circular_error_def example_self_parent_def)
qed

end
